theory Spec2Isabelle
  imports Complex_Main
begin

section \<open>Data model of the glyph atlas (TextAtlas.cpp)\<close>

text \<open>
  Conventions of the embedding.
  \<^item> C++ \<open>int\<close> is modelled as the unbounded \<open>int\<close>, \<open>size_t\<close> as \<open>nat\<close>: signed overflow
    is undefined in the source and every unsigned subtraction in it is guarded.
  \<^item> A C++ \<open>float\<close> is modelled by the real number it denotes. Every arithmetic
    operation of the source on floats is the exact operation followed by \<open>f32\<close>, the
    rounding to the nearest single-precision value with ties to even (IEEE 754
    binary32, subnormals included). Infinities and NaN are outside the model: a result
    beyond the largest finite value stays finite, and a quotient by a zero scale is
    \<open>0\<close>; the scale is meant to be a positive display scale. \<open>static_cast<float>\<close> of an
    \<open>int\<close> is \<open>int_to_float\<close>, \<open>static_cast<int>\<close> of a float truncates towards zero
    (\<open>float_to_int\<close>); \<open>ceil\<close> and \<open>floor\<close> are exact.
  \<^item> A \<open>GlyphHandle\<close> is a non-null shared pointer; the model passes the glyph itself.
  \<^item> \<open>tgfx::BytesKey\<close> values are compared structurally; a key is modelled by the tuple
    of the values written into it.
\<close>

datatype TextStyle = Fill | Stroke | StrokeAndFill

datatype PaintStyle = PaintFill | PaintStroke

record Typeface =
  uniqueID :: nat
  hasColor :: bool

record Font =
  getTypeface :: Typeface
  getSize :: real

subsection \<open>Single-precision arithmetic\<close>

definition pow2 :: "int \<Rightarrow> real" where
  "pow2 e = (if 0 \<le> e then 2 ^ nat e else 1 / 2 ^ nat (- e))"

definition roundTiesToEven :: "real \<Rightarrow> int" where
  "roundTiesToEven x =
     (let f = \<lfloor>x\<rfloor>; d = x - of_int f
      in if d < 1 / 2 then f else if 1 / 2 < d then f + 1 else if even f then f else f + 1)"

text \<open>
  The binary exponent of a magnitude, kept within the range \<open>-126 .. 127\<close> of normal
  single-precision numbers: \<open>exponentUp\<close> searches upwards from 0 for magnitudes of at
  least 1, \<open>exponentDown\<close> downwards for smaller ones.
\<close>

primrec exponentUp :: "nat \<Rightarrow> int \<Rightarrow> real \<Rightarrow> int" where
  "exponentUp 0 e a = e"
| "exponentUp (Suc n) e a = (if pow2 (e + 1) \<le> a then exponentUp n (e + 1) a else e)"

primrec exponentDown :: "nat \<Rightarrow> int \<Rightarrow> real \<Rightarrow> int" where
  "exponentDown 0 e a = e"
| "exponentDown (Suc n) e a = (if a < pow2 e then exponentDown n (e - 1) a else e)"

definition float32_exponent :: "real \<Rightarrow> int" where
  "float32_exponent a = (if 1 \<le> a then exponentUp 127 0 a else exponentDown 126 0 a)"

text \<open>
  Rounding to single precision: the value is rounded to the nearest multiple of the
  spacing \<open>2 ^ (e - 23)\<close> of its binade, ties to the even multiple.
\<close>

definition f32 :: "real \<Rightarrow> real" where
  "f32 x =
     (if x = 0 then 0
      else (let q = pow2 (float32_exponent \<bar>x\<bar> - 23)
            in of_int (roundTiesToEven (x / q)) * q))"

definition int_to_float :: "int \<Rightarrow> real" where
  "int_to_float n = f32 (of_int n)"

definition float_to_int :: "real \<Rightarrow> int" where
  "float_to_int r = (if 0 \<le> r then \<lfloor>r\<rfloor> else \<lceil>r\<rceil>)"

subsection \<open>Glyphs, runs, pages, locators\<close>

text \<open>
  \<open>tgfx::Rect\<close> is declared outside the shown sources. It is the usual rectangle of four
  edges: \<open>x()\<close> and \<open>y()\<close> are the left and top edge, \<open>width()\<close> and \<open>height()\<close> the
  differences of opposite edges, \<open>MakeXYWH\<close> builds it from origin and extent, and
  \<open>scale\<close> multiplies every edge.
\<close>

record Rect =
  rect_left :: real
  rect_top :: real
  rect_right :: real
  rect_bottom :: real

definition Rect_x :: "Rect \<Rightarrow> real" where
  "Rect_x r = rect_left r"

definition Rect_y :: "Rect \<Rightarrow> real" where
  "Rect_y r = rect_top r"

definition Rect_width :: "Rect \<Rightarrow> real" where
  "Rect_width r = f32 (rect_right r - rect_left r)"

definition Rect_height :: "Rect \<Rightarrow> real" where
  "Rect_height r = f32 (rect_bottom r - rect_top r)"

definition Rect_MakeXYWH :: "real \<Rightarrow> real \<Rightarrow> real \<Rightarrow> real \<Rightarrow> Rect" where
  "Rect_MakeXYWH x y w h =
     \<lparr>rect_left = x, rect_top = y, rect_right = f32 (x + w), rect_bottom = f32 (y + h)\<rparr>"

definition Rect_scale :: "Rect \<Rightarrow> real \<Rightarrow> real \<Rightarrow> Rect" where
  "Rect_scale r sx sy =
     \<lparr>rect_left = f32 (rect_left r * sx), rect_top = f32 (rect_top r * sy),
      rect_right = f32 (rect_right r * sx), rect_bottom = f32 (rect_bottom r * sy)\<rparr>"

record Glyph =
  getFont :: Font
  getGlyphID :: nat
  getStyle :: TextStyle
  getStrokeWidth :: real
  getBounds :: Rect

record Paint =
  paint_style :: PaintStyle
  paint_strokeWidth :: "real option"

record AtlasTextRun =
  paint :: Paint
  textFont :: Font
  glyphIDs :: "nat list"
  positions :: "(real \<times> real) list"

record 'tex Page =
  textRuns :: "AtlasTextRun list"
  width :: int
  height :: int
  texture :: "'tex option"

record AtlasLocator =
  pageIndex :: nat
  location :: Rect

record ('k, 'tex) Atlas =
  pages :: "'tex Page list"
  glyphLocators :: "'k \<rightharpoonup> AtlasLocator"

section \<open>RectanglePack\<close>

record RectanglePack =
  rp_padding :: int
  rp_width :: int
  rp_height :: int
  rp_x :: int
  rp_y :: int

definition kDefaultPadding :: int where
  "kDefaultPadding = 3"

definition RectanglePack_reset :: "RectanglePack \<Rightarrow> RectanglePack" where
  "RectanglePack_reset p =
     p\<lparr>rp_width := rp_padding p, rp_height := rp_padding p,
       rp_x := rp_padding p, rp_y := rp_padding p\<rparr>"

definition RectanglePack_new :: "real \<Rightarrow> RectanglePack" where
  "RectanglePack_new scale =
     RectanglePack_reset
       \<lparr>rp_padding = \<lceil>f32 (int_to_float kDefaultPadding / scale)\<rceil>,
        rp_width = 0, rp_height = 0, rp_x = 0, rp_y = 0\<rparr>"

text \<open>
  \<open>addRect\<close> returns the placement point and the updated packer. The first conditional
  starts a new shelf, the second advances the cursor and extends one bound.
\<close>

definition addRect :: "RectanglePack \<Rightarrow> int \<Rightarrow> int \<Rightarrow> (int \<times> int) \<times> RectanglePack" where
  "addRect p w0 h0 =
     (let w = w0 + rp_padding p;
          h = h0 + rp_padding p;
          area = (rp_width p - rp_x p) * (rp_height p - rp_y p);
          p1 = (if (rp_x p + w - rp_width p) * rp_y p > area
                   \<or> (rp_y p + h - rp_height p) * rp_x p > area
                then (if rp_width p \<le> rp_height p
                      then p\<lparr>rp_x := rp_width p, rp_y := rp_padding p,
                             rp_width := rp_width p + w\<rparr>
                      else p\<lparr>rp_x := rp_padding p, rp_y := rp_height p,
                             rp_height := rp_height p + h\<rparr>)
                else p);
          point = (rp_x p1, rp_y p1);
          p2 = (if rp_x p1 + w - rp_width p1 < rp_y p1 + h - rp_height p1
                then p1\<lparr>rp_x := rp_x p1 + w,
                        rp_height := max (rp_height p1) (rp_y p1 + h)\<rparr>
                else p1\<lparr>rp_y := rp_y p1 + h,
                        rp_width := max (rp_width p1) (rp_x p1 + w)\<rparr>)
      in (point, p2))"

section \<open>Atlas: page building\<close>

definition ToTGFXPaintStyle :: "TextStyle \<Rightarrow> PaintStyle" where
  "ToTGFXPaintStyle s =
     (case s of StrokeAndFill \<Rightarrow> PaintFill | Fill \<Rightarrow> PaintFill | Stroke \<Rightarrow> PaintStroke)"

definition CreateTextRun :: "Glyph \<Rightarrow> AtlasTextRun" where
  "CreateTextRun glyph =
     \<lparr>paint = \<lparr>paint_style = ToTGFXPaintStyle (getStyle glyph),
                paint_strokeWidth =
                  (if getStyle glyph = Stroke then Some (getStrokeWidth glyph) else None)\<rparr>,
      textFont = getFont glyph, glyphIDs = [], positions = []\<rparr>"

type_synonym StyleKey = "TextStyle \<times> real \<times> nat"

definition ComputeStyleKey :: "Glyph \<Rightarrow> StyleKey" where
  "ComputeStyleKey glyph =
     (getStyle glyph, getStrokeWidth glyph, uniqueID (getTypeface (getFont glyph)))"

text \<open>\<open>std::find\<close> over a vector: the index of the first equal element, if any.\<close>

fun std_find :: "'a list \<Rightarrow> 'a \<Rightarrow> nat option" where
  "std_find [] k = None"
| "std_find (x # xs) k = (if x = k then Some 0 else map_option Suc (std_find xs k))"

text \<open>The size of the bitmap a glyph asks the packer for, and the stroke inset.\<close>

definition glyphStrokeWidth :: "Glyph \<Rightarrow> int" where
  "glyphStrokeWidth glyph =
     (if getStyle glyph = Stroke then \<lceil>getStrokeWidth glyph\<rceil> else 0)"

definition glyphPackWidth :: "Glyph \<Rightarrow> int" where
  "glyphPackWidth glyph =
     float_to_int (Rect_width (getBounds glyph)) + glyphStrokeWidth glyph * 2"

definition glyphPackHeight :: "Glyph \<Rightarrow> int" where
  "glyphPackHeight glyph =
     float_to_int (Rect_height (getBounds glyph)) + glyphStrokeWidth glyph * 2"

definition pushGlyph :: "AtlasTextRun \<Rightarrow> nat \<Rightarrow> real \<times> real \<Rightarrow> AtlasTextRun" where
  "pushGlyph run gid pos = run\<lparr>glyphIDs := glyphIDs run @ [gid], positions := positions run @ [pos]\<rparr>"

definition makeLocator :: "nat \<Rightarrow> int \<times> int \<Rightarrow> int \<Rightarrow> int \<Rightarrow> real \<Rightarrow> AtlasLocator" where
  "makeLocator idx point w h scale =
     \<lparr>pageIndex = idx,
      location = Rect_scale (Rect_MakeXYWH (int_to_float (fst point)) (int_to_float (snd point))
                               (int_to_float w) (int_to_float h)) scale scale\<rparr>"

definition closePage :: "AtlasTextRun list \<Rightarrow> int \<Rightarrow> int \<Rightarrow> real \<Rightarrow> 'tex Page" where
  "closePage runs packWidth packHeight scale =
     \<lparr>textRuns = runs, width = \<lceil>f32 (int_to_float packWidth * scale)\<rceil>,
      height = \<lceil>f32 (int_to_float packHeight * scale)\<rceil>, texture = None\<rparr>"

text \<open>
  The loop state of \<open>Atlas::initPages\<close>: the local variables that live across
  iterations together with the two members being filled. The local \<open>page\<close> is
  default-constructed whenever an iteration starts, so it is not part of the state.
\<close>

record ('k, 'tex) BuildState =
  bs_styleKeys :: "StyleKey list"
  bs_textRuns :: "AtlasTextRun list"
  bs_pack :: RectanglePack
  bs_pageIndex :: nat
  bs_pages :: "'tex Page list"
  bs_glyphLocators :: "'k \<rightharpoonup> AtlasLocator"

text \<open>
  One iteration of the loop. \<open>computeAtlasKey\<close> stands for \<open>Glyph::computeAtlasKey\<close>,
  which is declared outside the shown sources.

  Aliasing: \<open>textRun\<close> is a raw pointer to element \<open>index\<close> of the heap buffer of the
  local vector \<open>textRuns\<close>, taken before the glyph is packed. On overflow that buffer is
  handed to \<open>page.textRuns\<close> by move assignment and then to \<open>pages.back().textRuns\<close> by
  the move construction in \<open>push_back\<close>; neither copies the elements. The later
  \<open>textRun->glyphIDs.push_back\<close> and \<open>textRun->positions.push_back\<close> therefore write into
  run \<open>index\<close> of the page that has just been closed, while the local \<open>textRuns\<close> is
  empty again.
\<close>

definition initPages_step ::
  "(Glyph \<Rightarrow> TextStyle \<Rightarrow> 'k) \<Rightarrow> real \<Rightarrow> int \<Rightarrow> ('k, 'tex) BuildState \<Rightarrow> Glyph
     \<Rightarrow> ('k, 'tex) BuildState" where
  "initPages_step computeAtlasKey scale maxPageSize st glyph =
     (let styleKey = ComputeStyleKey glyph;
          found = std_find (bs_styleKeys st) styleKey;
          styleKeys1 = (case found of None \<Rightarrow> bs_styleKeys st @ [styleKey]
                        | Some i \<Rightarrow> bs_styleKeys st);
          textRuns1 = (case found of None \<Rightarrow> bs_textRuns st @ [CreateTextRun glyph]
                       | Some i \<Rightarrow> bs_textRuns st);
          index = (case found of None \<Rightarrow> length (bs_textRuns st) | Some i \<Rightarrow> i);
          strokeWidth = glyphStrokeWidth glyph;
          x = f32 (Rect_x (getBounds glyph) - int_to_float strokeWidth);
          y = f32 (Rect_y (getBounds glyph) - int_to_float strokeWidth);
          w = glyphPackWidth glyph;
          h = glyphPackHeight glyph;
          packWidth = rp_width (bs_pack st);
          packHeight = rp_height (bs_pack st);
          placed = addRect (bs_pack st) w h;
          bytesKey = computeAtlasKey glyph (getStyle glyph)
      in if rp_width (snd placed) > maxPageSize \<or> rp_height (snd placed) > maxPageSize
         then
           (let closed = closePage textRuns1 packWidth packHeight scale;
                placed2 = addRect (RectanglePack_reset (snd placed)) w h;
                point = fst placed2;
                pos = (f32 (- x + int_to_float (fst point)),
                       f32 (- y + int_to_float (snd point)));
                closed2 = closed\<lparr>textRuns :=
                            (textRuns closed)[index :=
                               pushGlyph (textRuns closed ! index) (getGlyphID glyph) pos]\<rparr>;
                locator = makeLocator (bs_pageIndex st + 1) point w h scale
            in \<lparr>bs_styleKeys = [], bs_textRuns = [], bs_pack = snd placed2,
                bs_pageIndex = bs_pageIndex st + 1,
                bs_pages = bs_pages st @ [closed2],
                bs_glyphLocators = (bs_glyphLocators st)(bytesKey \<mapsto> locator)\<rparr>)
         else
           (let point = fst placed;
                pos = (f32 (- x + int_to_float (fst point)),
                       f32 (- y + int_to_float (snd point)));
                locator = makeLocator (bs_pageIndex st) point w h scale
            in \<lparr>bs_styleKeys = styleKeys1,
                bs_textRuns =
                  textRuns1[index := pushGlyph (textRuns1 ! index) (getGlyphID glyph) pos],
                bs_pack = snd placed,
                bs_pageIndex = bs_pageIndex st,
                bs_pages = bs_pages st,
                bs_glyphLocators = (bs_glyphLocators st)(bytesKey \<mapsto> locator)\<rparr>))"

definition initPages_start :: "real \<Rightarrow> ('k, 'tex) BuildState" where
  "initPages_start scale =
     \<lparr>bs_styleKeys = [], bs_textRuns = [], bs_pack = RectanglePack_new scale,
      bs_pageIndex = 0, bs_pages = [], bs_glyphLocators = Map.empty\<rparr>"

definition initPages_loop ::
  "(Glyph \<Rightarrow> TextStyle \<Rightarrow> 'k) \<Rightarrow> real \<Rightarrow> int \<Rightarrow> ('k, 'tex) BuildState \<Rightarrow> Glyph list
     \<Rightarrow> ('k, 'tex) BuildState" where
  "initPages_loop computeAtlasKey scale maxPageSize st glyphs =
     foldl (initPages_step computeAtlasKey scale maxPageSize) st glyphs"

definition initPages ::
  "(Glyph \<Rightarrow> TextStyle \<Rightarrow> 'k) \<Rightarrow> Glyph list \<Rightarrow> real \<Rightarrow> int \<Rightarrow> ('k, 'tex) Atlas" where
  "initPages computeAtlasKey glyphs scale maxTextureSize =
     (let maxPageSize = \<lfloor>f32 (int_to_float maxTextureSize / scale)\<rfloor>;
          st = initPages_loop computeAtlasKey scale maxPageSize (initPages_start scale) glyphs;
          page = closePage (bs_textRuns st) (rp_width (bs_pack st)) (rp_height (bs_pack st)) scale
      in \<lparr>pages = bs_pages st @ [page], glyphLocators = bs_glyphLocators st\<rparr>)"

text \<open>
  \<open>Atlas::draw\<close> gives every page the texture of a surface of the page's size on which
  the page's runs were drawn. Surface, canvas and texture belong to the GPU layer;
  \<open>rasterize\<close> stands for that layer.
\<close>

definition Atlas_draw ::
  "('tex Page \<Rightarrow> real \<Rightarrow> bool \<Rightarrow> 'tex option) \<Rightarrow> real \<Rightarrow> bool \<Rightarrow> ('k, 'tex) Atlas
     \<Rightarrow> ('k, 'tex) Atlas" where
  "Atlas_draw rasterize scale alphaOnly atlas =
     atlas\<lparr>pages := map (\<lambda>page. page\<lparr>texture := rasterize page scale alphaOnly\<rparr>) (pages atlas)\<rparr>"

definition Atlas_Make ::
  "(Glyph \<Rightarrow> TextStyle \<Rightarrow> 'k) \<Rightarrow> ('tex Page \<Rightarrow> real \<Rightarrow> bool \<Rightarrow> 'tex option) \<Rightarrow> real
     \<Rightarrow> Glyph list \<Rightarrow> int \<Rightarrow> bool \<Rightarrow> ('k, 'tex) Atlas option" where
  "Atlas_Make computeAtlasKey rasterize scale glyphs maxTextureSize alphaOnly =
     (case glyphs of
        [] \<Rightarrow> None
      | glyph0 # rest \<Rightarrow>
          if f32 (getSize (getFont glyph0) * scale) > 256 then None
          else Some (Atlas_draw rasterize scale alphaOnly
                       (initPages computeAtlasKey glyphs scale maxTextureSize)))"


text \<open>
  \<open>Atlas::getLocator\<close>. The out-parameter \<open>locator\<close> is a pointer that may be null:
  \<open>None\<close> is the null pointer, \<open>Some l\<close> a pointer to a locator currently holding \<open>l\<close>.
  The result is the returned flag and the content of the pointee after the call.
\<close>

definition Atlas_getLocator ::
  "(Glyph \<Rightarrow> TextStyle \<Rightarrow> 'k) \<Rightarrow> ('k, 'tex) Atlas \<Rightarrow> Glyph \<Rightarrow> TextStyle
     \<Rightarrow> AtlasLocator option \<Rightarrow> bool \<times> AtlasLocator option" where
  "Atlas_getLocator computeAtlasKey atlas glyph style locator =
     (case glyphLocators atlas (computeAtlasKey glyph style) of
        None \<Rightarrow> (False, locator)
      | Some found \<Rightarrow> (True, map_option (\<lambda>old. found) locator))"

section \<open>TextAtlas\<close>

datatype fault = NullDereference | BackOfEmptyVector

record ('k, 'tex) TextAtlas =
  assetID :: nat
  maskAtlas :: "('k, 'tex) Atlas"
  colorAtlas :: "('k, 'tex) Atlas option"
  atlasScale :: real

text \<open>
  \<open>TextAtlas::Make\<close>. The glyph lists, \<open>maxScale\<close> and the asset id come from the
  \<open>TextGlyphs\<close> argument, the maximal texture size from the context of the render cache.
\<close>

definition TextAtlas_Make ::
  "(Glyph \<Rightarrow> TextStyle \<Rightarrow> 'k) \<Rightarrow> ('tex Page \<Rightarrow> real \<Rightarrow> bool \<Rightarrow> 'tex option) \<Rightarrow> nat
     \<Rightarrow> Glyph list \<Rightarrow> Glyph list \<Rightarrow> real \<Rightarrow> int \<Rightarrow> real \<Rightarrow> ('k, 'tex) TextAtlas option" where
  "TextAtlas_Make computeAtlasKey rasterize ident maskAtlasGlyphs colorAtlasGlyphs maxScale
       maxTextureSize scale0 =
     (let scale = f32 (scale0 * maxScale)
      in case Atlas_Make computeAtlasKey rasterize scale maskAtlasGlyphs maxTextureSize True of
           None \<Rightarrow> None
         | Some built \<Rightarrow>
             Some \<lparr>assetID = ident, maskAtlas = built,
                   colorAtlas = Atlas_Make computeAtlasKey rasterize scale colorAtlasGlyphs
                                  maxTextureSize False,
                   atlasScale = scale\<rparr>)"


text \<open>\<open>TextAtlas::getAtlasTexture\<close>; \<open>None\<close> is the null texture pointer.\<close>

definition TextAtlas_getAtlasTexture :: "('k, 'tex) TextAtlas \<Rightarrow> nat \<Rightarrow> 'tex option" where
  "TextAtlas_getAtlasTexture ta pageIndex0 =
     (if length (pages (maskAtlas ta)) > pageIndex0
      then texture (pages (maskAtlas ta) ! pageIndex0)
      else (let pageIndex1 = pageIndex0 - length (pages (maskAtlas ta))
            in case colorAtlas ta of
                 None \<Rightarrow> None
               | Some color \<Rightarrow>
                   if length (pages color) > pageIndex1
                   then texture (pages color ! pageIndex1) else None))"

section \<open>Shape\<close>

text \<open>
  \<open>Path\<close>, \<open>Color4f\<close>, \<open>Color\<close> and \<open>Shader\<close> are declared outside the shown sources:
  they are type parameters, \<open>Path::isEmpty\<close> and the three shader factories are
  parameters of the functions. A factory returns \<open>None\<close> for a null shader.
\<close>

datatype GradientFillType = Linear | Radial

record 'color GradientPaint =
  gradientType :: GradientFillType
  startPoint :: "real \<times> real"
  endPoint :: "real \<times> real"
  colors :: "'color list"
  gradientPositions :: "real list"

record ('color, 'shader) ShaderFactory =
  MakeLinearGradient ::
    "real \<times> real \<Rightarrow> real \<times> real \<Rightarrow> 'color list \<Rightarrow> real list \<Rightarrow> 'shader option"
  MakeRadialGradient ::
    "real \<times> real \<Rightarrow> real \<Rightarrow> 'color list \<Rightarrow> real list \<Rightarrow> 'shader option"
  MakeColorShader :: "'color \<Rightarrow> 'shader option"

record ('color4f, 'shader) ShapePaint =
  paintColor :: "'color4f option"
  paintShader :: "'shader option"

record ('path, 'color4f, 'shader) Shape =
  shapePath :: 'path
  shapePaint :: "('color4f, 'shader) ShapePaint"

definition Point_Distance :: "real \<times> real \<Rightarrow> real \<times> real \<Rightarrow> real" where
  "Point_Distance a b = sqrt ((fst a - fst b)\<^sup>2 + (snd a - snd b)\<^sup>2)"

definition Shape_MakeFrom_color ::
  "('path \<Rightarrow> bool) \<Rightarrow> 'path \<Rightarrow> 'color4f \<Rightarrow> ('path, 'color4f, 'shader) Shape option" where
  "Shape_MakeFrom_color isEmpty path color =
     (if isEmpty path then None
      else Some \<lparr>shapePath = path,
                 shapePaint = \<lparr>paintColor = Some color, paintShader = None\<rparr>\<rparr>)"

definition gradientShader ::
  "('color, 'shader) ShaderFactory \<Rightarrow> 'color GradientPaint \<Rightarrow> 'shader option" where
  "gradientShader api gradient =
     (if gradientType gradient = Linear
      then MakeLinearGradient api (startPoint gradient) (endPoint gradient) (colors gradient)
             (gradientPositions gradient)
      else MakeRadialGradient api (startPoint gradient)
             (Point_Distance (startPoint gradient) (endPoint gradient)) (colors gradient)
             (gradientPositions gradient))"

text \<open>
  The gradient overload. \<open>gradient.colors.back()\<close> is only defined on a non-empty
  vector; reaching it with an empty one is the fault \<open>BackOfEmptyVector\<close>.
\<close>

definition Shape_MakeFrom_gradient ::
  "('path \<Rightarrow> bool) \<Rightarrow> ('color, 'shader) ShaderFactory \<Rightarrow> 'path \<Rightarrow> 'color GradientPaint
     \<Rightarrow> fault + ('path, 'color4f, 'shader) Shape option" where
  "Shape_MakeFrom_gradient isEmpty api path gradient =
     (if isEmpty path then Inr None
      else
        (case gradientShader api gradient of
           Some shader \<Rightarrow>
             Inr (Some \<lparr>shapePath = path,
                        shapePaint = \<lparr>paintColor = None, paintShader = Some shader\<rparr>\<rparr>)
         | None \<Rightarrow>
             (if colors gradient = [] then Inl BackOfEmptyVector
              else Inr (Some \<lparr>shapePath = path,
                              shapePaint =
                                \<lparr>paintColor = None,
                                 paintShader =
                                   MakeColorShader api (last (colors gradient))\<rparr>\<rparr>))))"


section \<open>Auxiliary notions and sample inputs\<close>

definition colorPageCount :: "('k, 'tex) TextAtlas \<Rightarrow> nat" where
  "colorPageCount ta =
     (case colorAtlas ta of None \<Rightarrow> 0 | Some color \<Rightarrow> length (pages color))"

definition rectsIntersect :: "Rect \<Rightarrow> Rect \<Rightarrow> bool" where
  "rectsIntersect a b =
     (rect_left a < rect_right b \<and> rect_left b < rect_right a
      \<and> rect_top a < rect_bottom b \<and> rect_top b < rect_bottom a)"

definition rectInsidePage :: "Rect \<Rightarrow> 'tex Page \<Rightarrow> bool" where
  "rectInsidePage r page =
     (0 \<le> rect_left r \<and> 0 \<le> rect_top r
      \<and> rect_right r \<le> of_int (width page) \<and> rect_bottom r \<le> of_int (height page))"

definition pageSummary :: "'tex Page \<Rightarrow> int \<times> int \<times> nat list list" where
  "pageSummary page = (width page, height page, map glyphIDs (textRuns page))"

text \<open>
  Modelled from the spec: \<open>Glyph::computeAtlasKey\<close> is declared outside the shown sources.
  The spec describes it as ``a deterministic key-writer that serializes
  (style-discriminant, stroke-width, typeface-id) plus glyph index into a byte key''.
  The general theorems below take the key writer as a parameter; \<open>specAtlasKey\<close> is only
  used to run the code on sample inputs.
\<close>

definition specAtlasKey :: "Glyph \<Rightarrow> TextStyle \<Rightarrow> TextStyle \<times> real \<times> nat \<times> nat" where
  "specAtlasKey glyph style =
     (style, getStrokeWidth glyph, uniqueID (getTypeface (getFont glyph)), getGlyphID glyph)"

definition sampleGlyph :: "nat \<Rightarrow> nat \<Rightarrow> TextStyle \<Rightarrow> real \<Rightarrow> real \<Rightarrow> real \<Rightarrow> Glyph" where
  "sampleGlyph gid face style strokeW w h =
     \<lparr>getFont = \<lparr>getTypeface = \<lparr>uniqueID = face, hasColor = False\<rparr>, getSize = 20\<rparr>,
      getGlyphID = gid, getStyle = style, getStrokeWidth = strokeW,
      getBounds = Rect_MakeXYWH 0 0 w h\<rparr>"

definition sampleColorGlyph :: "nat \<Rightarrow> Glyph" where
  "sampleColorGlyph gid =
     \<lparr>getFont = \<lparr>getTypeface = \<lparr>uniqueID = 9, hasColor = True\<rparr>, getSize = 20\<rparr>,
      getGlyphID = gid, getStyle = Fill, getStrokeWidth = 0,
      getBounds = Rect_MakeXYWH 0 0 20 20\<rparr>"

text \<open>A default-constructed \<open>AtlasLocator\<close>, as a caller passes it to \<open>getLocator\<close>.\<close>

definition emptyLocator :: AtlasLocator where
  "emptyLocator = \<lparr>pageIndex = 0, location = Rect_MakeXYWH 0 0 0 0\<rparr>"

definition samplePage :: "nat \<Rightarrow> nat Page" where
  "samplePage t = \<lparr>textRuns = [], width = 26, height = 26, texture = Some t\<rparr>"

definition sampleTextAtlas :: "(TextStyle \<times> real \<times> nat \<times> nat, nat) TextAtlas" where
  "sampleTextAtlas =
     \<lparr>assetID = 7,
      maskAtlas = \<lparr>pages = [samplePage 10, samplePage 11],
                   glyphLocators =
                     [specAtlasKey (sampleGlyph 1 1 Fill 0 20 20) Fill
                        \<mapsto> makeLocator 1 (3, 3) 20 20 1]\<rparr>,
      colorAtlas = Some \<lparr>pages = [samplePage 20],
                         glyphLocators =
                           [specAtlasKey (sampleColorGlyph 5) Fill
                              \<mapsto> makeLocator 0 (3, 3) 20 20 1]\<rparr>,
      atlasScale = 1\<rparr>"

text \<open>
  The locator an iteration of the loop computes for its glyph, from the packer and the
  page index it starts with. It is the value of the local variable \<open>locator\<close> of
  \<open>initPages_step\<close> (lemma \<open>step_locators\<close>) and does not depend on the table.
\<close>

definition iterationLocator :: "real \<Rightarrow> int \<Rightarrow> RectanglePack \<Rightarrow> nat \<Rightarrow> Glyph \<Rightarrow> AtlasLocator" where
  "iterationLocator scale maxPageSize pack idx glyph =
     (let w = glyphPackWidth glyph;
          h = glyphPackHeight glyph;
          placed = addRect pack w h
      in if rp_width (snd placed) > maxPageSize \<or> rp_height (snd placed) > maxPageSize
         then makeLocator (idx + 1) (fst (addRect (RectanglePack_reset (snd placed)) w h)) w h scale
         else makeLocator idx (fst placed) w h scale)"

definition workingShaders :: "(nat, nat) ShaderFactory" where
  "workingShaders =
     \<lparr>MakeLinearGradient = (\<lambda>startP endP cs ps. Some 100),
      MakeRadialGradient = (\<lambda>center radius cs ps. Some 200),
      MakeColorShader = (\<lambda>c. Some c)\<rparr>"

definition failingShaders :: "(nat, nat) ShaderFactory" where
  "failingShaders =
     \<lparr>MakeLinearGradient = (\<lambda>startP endP cs ps. None),
      MakeRadialGradient = (\<lambda>center radius cs ps. None),
      MakeColorShader = (\<lambda>c. Some c)\<rparr>"

definition sampleGradient :: "nat list \<Rightarrow> nat GradientPaint" where
  "sampleGradient cs =
     \<lparr>gradientType = Linear, startPoint = (0, 0), endPoint = (1, 0), colors = cs,
      gradientPositions = []\<rparr>"

section \<open>Helper lemmas\<close>

lemma std_find_less: "std_find xs k = Some i \<Longrightarrow> i < length xs"
  by (induction xs arbitrary: i) (auto split: if_splits)

lemma pushed_glyph_in_runs:
  assumes "i < length runs"
  shows "gid \<in> set (concat (map glyphIDs (runs[i := pushGlyph (runs ! i) gid pos])))"
proof -
  have "pushGlyph (runs ! i) gid pos \<in> set (runs[i := pushGlyph (runs ! i) gid pos])"
    using assms by (rule set_update_memI)
  moreover have "gid \<in> set (glyphIDs (pushGlyph (runs ! i) gid pos))"
    by (simp add: pushGlyph_def)
  ultimately show ?thesis by auto
qed

text \<open>
  What an overflowing iteration does, for every state in which the style keys and the
  runs of the open page correspond: the page is closed with the extent the packer had
  before the glyph was packed, the packer is reset and the glyph packed again, the page
  index advances, the open run list is empty afterwards, and the glyph id has been
  appended to a run of the page just closed.
\<close>

lemma initPages_step_overflow:
  fixes st :: "('k, 'tex) BuildState"
  assumes inv: "length (bs_styleKeys st) = length (bs_textRuns st)"
    and ov: "maxPageSize < rp_width (snd (addRect (bs_pack st) (glyphPackWidth g) (glyphPackHeight g)))
             \<or> maxPageSize < rp_height (snd (addRect (bs_pack st) (glyphPackWidth g) (glyphPackHeight g)))"
  shows "bs_textRuns (initPages_step key scale maxPageSize st g) = []"
    and "bs_pageIndex (initPages_step key scale maxPageSize st g) = bs_pageIndex st + 1"
    and "bs_pack (initPages_step key scale maxPageSize st g)
           = snd (addRect (RectanglePack_reset
                    (snd (addRect (bs_pack st) (glyphPackWidth g) (glyphPackHeight g))))
                  (glyphPackWidth g) (glyphPackHeight g))"
    and "\<exists>closed. bs_pages (initPages_step key scale maxPageSize st g) = bs_pages st @ [closed]
           \<and> width closed = \<lceil>f32 (int_to_float (rp_width (bs_pack st)) * scale)\<rceil>
           \<and> height closed = \<lceil>f32 (int_to_float (rp_height (bs_pack st)) * scale)\<rceil>
           \<and> getGlyphID g \<in> set (concat (map glyphIDs (textRuns closed)))"
proof -
  show "bs_textRuns (initPages_step key scale maxPageSize st g) = []"
    using ov by (simp add: initPages_step_def Let_def)
  show "bs_pageIndex (initPages_step key scale maxPageSize st g) = bs_pageIndex st + 1"
    using ov by (simp add: initPages_step_def Let_def)
  show "bs_pack (initPages_step key scale maxPageSize st g)
           = snd (addRect (RectanglePack_reset
                    (snd (addRect (bs_pack st) (glyphPackWidth g) (glyphPackHeight g))))
                  (glyphPackWidth g) (glyphPackHeight g))"
    using ov by (simp add: initPages_step_def Let_def)
  let ?found = "std_find (bs_styleKeys st) (ComputeStyleKey g)"
  let ?runs = "case ?found of None \<Rightarrow> bs_textRuns st @ [CreateTextRun g]
               | Some i \<Rightarrow> bs_textRuns st"
  let ?index = "case ?found of None \<Rightarrow> length (bs_textRuns st) | Some i \<Rightarrow> i"
  have less: "?index < length ?runs"
    using inv by (auto split: option.splits dest: std_find_less)
  show "\<exists>closed. bs_pages (initPages_step key scale maxPageSize st g) = bs_pages st @ [closed]
           \<and> width closed = \<lceil>f32 (int_to_float (rp_width (bs_pack st)) * scale)\<rceil>
           \<and> height closed = \<lceil>f32 (int_to_float (rp_height (bs_pack st)) * scale)\<rceil>
           \<and> getGlyphID g \<in> set (concat (map glyphIDs (textRuns closed)))"
    using ov pushed_glyph_in_runs [OF less]
    by (simp add: initPages_step_def Let_def closePage_def)
qed

text \<open>
  The packer on the requests 5 by 10, 20 by 5, 30 by 10 and 10 by 5 with padding 3. The
  third request is placed without a new shelf at (11, 11) and spans 13 rows, down to row
  24; only the width is extended, the height stays 16. The fourth request then starts
  a shelf at row 16.
\<close>

lemma addRect_trace:
  "addRect (RectanglePack_new 1) 5 10
     = ((3, 3), \<lparr>rp_padding = 3, rp_width = 11, rp_height = 16, rp_x = 11, rp_y = 3\<rparr>)"
  "addRect \<lparr>rp_padding = 3, rp_width = 11, rp_height = 16, rp_x = 11, rp_y = 3\<rparr> 20 5
     = ((11, 3), \<lparr>rp_padding = 3, rp_width = 34, rp_height = 16, rp_x = 11, rp_y = 11\<rparr>)"
  "addRect \<lparr>rp_padding = 3, rp_width = 34, rp_height = 16, rp_x = 11, rp_y = 11\<rparr> 30 10
     = ((11, 11), \<lparr>rp_padding = 3, rp_width = 44, rp_height = 16, rp_x = 11, rp_y = 24\<rparr>)"
  "addRect \<lparr>rp_padding = 3, rp_width = 44, rp_height = 16, rp_x = 11, rp_y = 24\<rparr> 10 5
     = ((3, 16), \<lparr>rp_padding = 3, rp_width = 44, rp_height = 24, rp_x = 16, rp_y = 16\<rparr>)"
  by code_simp+

text \<open>
  Single-precision rounding at some values: small integers are kept, \<open>1 / 10\<close>,
  \<open>1 / 3\<close>, \<open>64 / 5\<close> (12.8) and \<open>3 / 25\<close> (0.12) go to the nearest single-precision
  value, integers beyond \<open>2 ^ 24\<close> are rounded with ties to even.
\<close>

lemma f32_samples:
  "f32 0 = 0" "f32 3 = 3" "f32 (- 26) = - 26" "f32 2048 = 2048"
  "f32 (1 / 10) = 13421773 / 134217728"
  "f32 (1 / 3) = 11184811 / 33554432"
  "f32 (64 / 5) = 13421773 / 1048576"
  "f32 (3 / 25) = 16106127 / 134217728"
  "f32 16777217 = 16777216"
  "f32 16777219 = 16777220"
  by code_simp+

text \<open>
  The padding at scale 0.12 (as a single-precision value): the quotient \<open>3 / scale\<close>
  is slightly above 25 and rounds to 25.
\<close>

lemma RectanglePack_new_sample:
  "(25 :: real) < 3 / (16106127 / 134217728)"
  "rp_padding (RectanglePack_new (16106127 / 134217728)) = 25"
  by code_simp+

text \<open>The table after an iteration: only the entry of the glyph's own key is written.\<close>

lemma step_locators:
  "bs_glyphLocators (initPages_step key scale maxPageSize st glyph)
     = (bs_glyphLocators st)
         (key glyph (getStyle glyph)
            \<mapsto> iterationLocator scale maxPageSize (bs_pack st) (bs_pageIndex st) glyph)"
  by (simp add: initPages_step_def iterationLocator_def Let_def)

lemma loop_Nil: "initPages_loop key scale maxPageSize st [] = st"
  by (simp add: initPages_loop_def)

lemma loop_Cons:
  "initPages_loop key scale maxPageSize st (g # gs)
     = initPages_loop key scale maxPageSize (initPages_step key scale maxPageSize st g) gs"
  by (simp add: initPages_loop_def)

lemma loop_append:
  "initPages_loop key scale maxPageSize st (pre @ post)
     = initPages_loop key scale maxPageSize (initPages_loop key scale maxPageSize st pre) post"
  by (simp add: initPages_loop_def)

lemma loop_locators_other:
  "k \<notin> set (map (\<lambda>g. key g (getStyle g)) gs)
     \<Longrightarrow> bs_glyphLocators (initPages_loop key scale maxPageSize st gs) k = bs_glyphLocators st k"
proof (induction gs arbitrary: st)
  case Nil
  show ?case by (simp add: loop_Nil)
next
  case (Cons g gs)
  from Cons.prems have ne: "k \<noteq> key g (getStyle g)"
    and rest: "k \<notin> set (map (\<lambda>g. key g (getStyle g)) gs)" by auto
  show ?case
    using ne by (simp add: loop_Cons Cons.IH [OF rest] step_locators)
qed

text \<open>A key that no glyph of the stream writes is absent from the finished table.\<close>

lemma initPages_locators_absent:
  "k \<notin> set (map (\<lambda>g. key g (getStyle g)) glyphs)
     \<Longrightarrow> glyphLocators (initPages key glyphs scale maxTextureSize) k = None"
  by (simp add: initPages_def Let_def loop_locators_other initPages_start_def)

section \<open>Claims about page building\<close>

text \<open>
  C1. Page-overflow policy: a glyph whose packing pushes a packed dimension beyond
  \<open>floor(maxTextureSize / scale)\<close> is not placed on the current page; the page is closed
  with the pre-overflow extent, the packer is reset and the glyph is packed again on a
  fresh page whose index is one greater.

  The code does close the page with the pre-overflow extent, reset the packer and give
  the glyph a locator on the next page (\<open>initPages_step_overflow\<close>), but it appends the
  glyph to a run of the page it has just closed. With two 20 by 20 glyphs of one style,
  scale 1 and a maximal texture size of 30 the second glyph overflows: its locator names
  page 1, while its id and its position (3, 3) are in the run of page 0, on top of the
  first glyph, and page 1 has no run at all.
\<close>

theorem overflow_glyph_drawn_on_closed_page:
  "map_option
     (\<lambda>atlas. (map pageSummary (pages atlas),
                map (\<lambda>page. map positions (textRuns page)) (pages atlas),
                map_option pageIndex
                  (glyphLocators atlas (specAtlasKey (sampleGlyph 1 1 Fill 0 20 20) Fill)),
                map_option pageIndex
                  (glyphLocators atlas (specAtlasKey (sampleGlyph 2 1 Fill 0 20 20) Fill))))
     (Atlas_Make specAtlasKey (\<lambda>page s a. Some ()) 1
        [sampleGlyph 1 1 Fill 0 20 20, sampleGlyph 2 1 Fill 0 20 20] 30 True)
   = Some ([(26, 26, [[1, 2]]), (26, 26, [])], [[[(3, 3), (3, 3)]], []], Some 0, Some 1)"
  by code_simp

text \<open>
  C2. The size requested from the rectangle packer is the ink-bounds width and height
  inflated by twice the rounded-up stroke width when the style includes stroking
  (Stroke or StrokeAndFill), and not inflated for Fill.

  As stated this fails for StrokeAndFill: the code inflates only when the style is
  exactly Stroke, in agreement with \<open>ToTGFXPaintStyle\<close> and \<open>CreateTextRun\<close>, which treat
  StrokeAndFill as a fill. A StrokeAndFill glyph of 20 by 20 with stroke width 2 asks
  the packer for 20 by 20, not 24 by 24.
\<close>

theorem stroke_and_fill_not_inflated:
  "getStyle (sampleGlyph 1 1 StrokeAndFill 2 20 20) = StrokeAndFill
   \<and> float_to_int (Rect_width (getBounds (sampleGlyph 1 1 StrokeAndFill 2 20 20)))
       + 2 * \<lceil>getStrokeWidth (sampleGlyph 1 1 StrokeAndFill 2 20 20)\<rceil> = 24
   \<and> bs_pack (initPages_step specAtlasKey 1 2048 (initPages_start 1 :: (_, unit) BuildState)
               (sampleGlyph 1 1 StrokeAndFill 2 20 20))
       = snd (addRect (RectanglePack_new 1) 20 20)
   \<and> snd (addRect (RectanglePack_new 1) 20 20) \<noteq> snd (addRect (RectanglePack_new 1) 24 24)"
  by code_simp

text \<open>
  C2, amended. In every iteration the packer is asked for the truncated ink-bounds
  width and height, inflated by twice the rounded-up stroke width when the style is
  Stroke and by nothing for Fill and StrokeAndFill; on overflow the same size is
  requested again from the reset packer.
\<close>

theorem padded_size_request:
  "bs_pack (initPages_step key scale maxPageSize st glyph) =
     (let inflate = (if getStyle glyph = Stroke then \<lceil>getStrokeWidth glyph\<rceil> * 2 else 0);
          w = float_to_int (Rect_width (getBounds glyph)) + inflate;
          h = float_to_int (Rect_height (getBounds glyph)) + inflate;
          placed = snd (addRect (bs_pack st) w h)
      in if rp_width placed > maxPageSize \<or> rp_height placed > maxPageSize
         then snd (addRect (RectanglePack_reset placed) w h) else placed)"
  by (simp add: initPages_step_def glyphPackWidth_def glyphPackHeight_def
        glyphStrokeWidth_def Let_def)

text \<open>
  C3. \<open>Atlas::Make\<close> returns no atlas exactly when the glyph list is empty or the font
  size of the first glyph times the scale exceeds 256; in every other case it returns
  an atlas.

  As stated, with the product taken exactly, this fails at the threshold: the test
  \<open>getSize() * scale > 256.f\<close> compares the single-precision product. For font size 20
  and the scale 12.8 (as a single-precision value, slightly above 12.8) the exact product
  exceeds 256, the rounded product is 256, and an atlas of one page is returned.
\<close>

theorem rounded_product_at_threshold:
  "f32 (64 / 5) = 13421773 / 1048576
   \<and> getSize (getFont (sampleGlyph 1 1 Fill 0 20 20)) * (13421773 / 1048576) > 256
   \<and> map_option (\<lambda>atlas. length (pages atlas))
        (Atlas_Make specAtlasKey (\<lambda>page s a. Some ()) (13421773 / 1048576)
           [sampleGlyph 1 1 Fill 0 20 20] 2048 True)
      = Some 1"
  by code_simp

text \<open>
  C3, amended. \<open>Atlas::Make\<close> returns no atlas exactly when the glyph list is empty or
  the single-precision product of the font size of the first glyph and the scale exceeds
  256; in every other case it returns an atlas.
\<close>

theorem Atlas_Make_null_iff:
  "Atlas_Make computeAtlasKey rasterize scale glyphs maxTextureSize alphaOnly = None
     \<longleftrightarrow> (glyphs = [] \<or> f32 (getSize (getFont (hd glyphs)) * scale) > 256)"
  by (cases glyphs) (simp_all add: Atlas_Make_def)

text \<open>
  C4. No overlap: the padded rectangles of two distinct glyphs on the same page do not
  intersect.

  The packer extends only one bound after placing a rectangle, so a rectangle can
  stick out of the packed extent and the next shelf is started inside it. Four Fill
  glyphs of sizes 5 by 10, 20 by 5, 30 by 10 and 10 by 5 (scale 1, maximal texture size
  2048) land on one page; the third is placed at (11, 11) and the fourth at (3, 16), and
  already their unpadded rectangles intersect.
\<close>

theorem packed_glyphs_overlap:
  "map_option
     (\<lambda>atlas. (map pageSummary (pages atlas),
                glyphLocators atlas (specAtlasKey (sampleGlyph 3 1 Fill 0 30 10) Fill),
                glyphLocators atlas (specAtlasKey (sampleGlyph 4 1 Fill 0 10 5) Fill)))
     (Atlas_Make specAtlasKey (\<lambda>page s a. Some ()) 1
        [sampleGlyph 1 1 Fill 0 5 10, sampleGlyph 2 1 Fill 0 20 5,
         sampleGlyph 3 1 Fill 0 30 10, sampleGlyph 4 1 Fill 0 10 5]
        2048 True)
   = Some ([(44, 24, [[1, 2, 3, 4]])],
           Some \<lparr>pageIndex = 0,
                  location = \<lparr>rect_left = 11, rect_top = 11,
                               rect_right = 41, rect_bottom = 21\<rparr>\<rparr>,
           Some \<lparr>pageIndex = 0,
                  location = \<lparr>rect_left = 3, rect_top = 16,
                               rect_right = 13, rect_bottom = 21\<rparr>\<rparr>)
   \<and> rectsIntersect
         \<lparr>rect_left = 11, rect_top = 11, rect_right = 41, rect_bottom = 21\<rparr>
         \<lparr>rect_left = 3, rect_top = 16, rect_right = 13, rect_bottom = 21\<rparr>"
  by code_simp

text \<open>
  C5. Coverage: the rectangle of every locator lies within the width and height of the
  page the locator names.

  With the first three glyphs of the previous input the page is closed at 44 by 16,
  while the locator of the third glyph reaches down to 21: the packer advanced its
  cursor below the glyph without extending the height.
\<close>

theorem locator_outside_page:
  "map_option
     (\<lambda>atlas. (map pageSummary (pages atlas),
                Atlas_getLocator specAtlasKey atlas (sampleGlyph 3 1 Fill 0 30 10) Fill
                  (Some emptyLocator),
                map_option (\<lambda>l. rectInsidePage (location l) (pages atlas ! pageIndex l))
                  (glyphLocators atlas (specAtlasKey (sampleGlyph 3 1 Fill 0 30 10) Fill))))
     (Atlas_Make specAtlasKey (\<lambda>page s a. Some ()) 1
        [sampleGlyph 1 1 Fill 0 5 10, sampleGlyph 2 1 Fill 0 20 5,
         sampleGlyph 3 1 Fill 0 30 10]
        2048 True)
   = Some ([(44, 16, [[1, 2, 3]])],
           (True, Some \<lparr>pageIndex = 0,
                         location = \<lparr>rect_left = 11, rect_top = 11,
                                      rect_right = 41, rect_bottom = 21\<rparr>\<rparr>),
           Some False)"
  by code_simp

section \<open>Claims about the text atlas\<close>

text \<open>
  C6. Unified indexing: with \<open>M\<close> mask pages and \<open>C\<close> colour pages (\<open>C = 0\<close> without a
  colour atlas), \<open>getAtlasTexture i\<close> is the texture of mask page \<open>i\<close> for \<open>i < M\<close>, the
  texture of colour page \<open>i - M\<close> for \<open>M \<le> i < M + C\<close>, and none for \<open>i \<ge> M + C\<close>.
\<close>

theorem getAtlasTexture_unified:
  "(i < length (pages (maskAtlas ta))
      \<longrightarrow> TextAtlas_getAtlasTexture ta i = texture (pages (maskAtlas ta) ! i))
   \<and> (length (pages (maskAtlas ta)) \<le> i
        \<and> i < length (pages (maskAtlas ta)) + colorPageCount ta
      \<longrightarrow> (\<exists>color. colorAtlas ta = Some color
             \<and> TextAtlas_getAtlasTexture ta i
                 = texture (pages color ! (i - length (pages (maskAtlas ta))))))
   \<and> (length (pages (maskAtlas ta)) + colorPageCount ta \<le> i
      \<longrightarrow> TextAtlas_getAtlasTexture ta i = None)"
  by (auto simp: TextAtlas_getAtlasTexture_def colorPageCount_def Let_def
        split: option.splits)

theorem getAtlasTexture_unified_witness:
  "length (pages (maskAtlas sampleTextAtlas)) = 2 \<and> colorPageCount sampleTextAtlas = 1
   \<and> TextAtlas_getAtlasTexture sampleTextAtlas 1 = Some 11
   \<and> TextAtlas_getAtlasTexture sampleTextAtlas 2 = Some 20
   \<and> TextAtlas_getAtlasTexture sampleTextAtlas 3 = None"
proof -
  have m: "length (pages (maskAtlas sampleTextAtlas)) = 2"
    by (simp add: sampleTextAtlas_def)
  have c: "colorPageCount sampleTextAtlas = 1"
    by (simp add: sampleTextAtlas_def colorPageCount_def)
  have col: "colorAtlas sampleTextAtlas
      = Some \<lparr>pages = [samplePage 20],
               glyphLocators = [specAtlasKey (sampleColorGlyph 5) Fill
                                  \<mapsto> makeLocator 0 (3, 3) 20 20 1]\<rparr>"
    by (simp add: sampleTextAtlas_def)
  have t1: "texture (pages (maskAtlas sampleTextAtlas) ! 1) = Some 11"
    by (simp add: sampleTextAtlas_def samplePage_def)
  from getAtlasTexture_unified [of 1 sampleTextAtlas] m t1
  have a: "TextAtlas_getAtlasTexture sampleTextAtlas 1 = Some 11" by simp
  from getAtlasTexture_unified [of 2 sampleTextAtlas] m c col
  have b: "TextAtlas_getAtlasTexture sampleTextAtlas 2 = Some 20"
    by (simp add: samplePage_def)
  from getAtlasTexture_unified [of 3 sampleTextAtlas] m c
  have d: "TextAtlas_getAtlasTexture sampleTextAtlas 3 = None" by simp
  from m c a b d show ?thesis by simp
qed



section \<open>Claims about locators and runs\<close>

text \<open>
  C8. A glyph+style key maps to at most one locator, and a locator once assigned to a
  key never changes, also when the input contains the same glyph+style more than once.

  As stated this fails for a repeated key: \<open>glyphLocators[bytesKey] = locator\<close> overwrites.
  While one atlas is built from the input that holds the same 20 by 20 glyph twice, the
  key is assigned the locator at (3, 3) in the first iteration and the different locator
  at (26, 3) in the second, which is the one the finished atlas holds.
\<close>

theorem repeated_key_overwrites_locator:
  "bs_glyphLocators
      (initPages_loop specAtlasKey 1 2048 (initPages_start 1 :: (_, unit) BuildState)
         [sampleGlyph 1 1 Fill 0 20 20])
      (specAtlasKey (sampleGlyph 1 1 Fill 0 20 20) Fill)
    = Some \<lparr>pageIndex = 0,
             location = \<lparr>rect_left = 3, rect_top = 3, rect_right = 23, rect_bottom = 23\<rparr>\<rparr>
   \<and> glyphLocators
        (initPages specAtlasKey [sampleGlyph 1 1 Fill 0 20 20, sampleGlyph 1 1 Fill 0 20 20]
           1 2048 :: (_, unit) Atlas)
        (specAtlasKey (sampleGlyph 1 1 Fill 0 20 20) Fill)
    = Some \<lparr>pageIndex = 0,
             location = \<lparr>rect_left = 26, rect_top = 3, rect_right = 46, rect_bottom = 23\<rparr>\<rparr>
   \<and> \<lparr>pageIndex = 0,
        location = \<lparr>rect_left = 3, rect_top = 3, rect_right = 23, rect_bottom = 23\<rparr>\<rparr>
     \<noteq> \<lparr>pageIndex = 0,
          location = \<lparr>rect_left = 26, rect_top = 3, rect_right = 46, rect_bottom = 23\<rparr>\<rparr>"
  by code_simp

text \<open>
  C8, amended. The table is a map, so a key has at most one locator. For every input
  stream, every iteration writes the locator it computes for its glyph under the
  glyph's key, whatever the table held for that key before; a locator is changed by
  nothing but a later occurrence of the same key. Hence, for a glyph whose key does not
  occur again in the rest of the stream (earlier occurrences are allowed), the locator
  written in its iteration is the one the finished atlas holds, and rasterization does
  not change it: the finished atlas maps every key to the locator of the key's last
  occurrence.
\<close>

theorem locator_of_last_occurrence:
  assumes "key g (getStyle g) \<notin> set (map (\<lambda>h. key h (getStyle h)) post)"
  shows "let maxPageSize = \<lfloor>f32 (int_to_float maxTextureSize / scale)\<rfloor>;
             before = initPages_loop key scale maxPageSize
                        (initPages_start scale :: ('k, 'tex) BuildState) pre;
             own = iterationLocator scale maxPageSize (bs_pack before) (bs_pageIndex before) g
         in bs_glyphLocators (initPages_step key scale maxPageSize before g)
              (key g (getStyle g)) = Some own
            \<and> glyphLocators
                (initPages key (pre @ g # post) scale maxTextureSize :: ('k, 'tex) Atlas)
                (key g (getStyle g)) = Some own
            \<and> glyphLocators
                (Atlas_draw rasterize scale alphaOnly
                   (initPages key (pre @ g # post) scale maxTextureSize :: ('k, 'tex) Atlas))
                (key g (getStyle g)) = Some own"
proof -
  let ?mps = "\<lfloor>f32 (int_to_float maxTextureSize / scale)\<rfloor>"
  let ?before = "initPages_loop key scale ?mps (initPages_start scale :: ('k, 'tex) BuildState) pre"
  let ?after = "initPages_step key scale ?mps ?before g"
  let ?own = "iterationLocator scale ?mps (bs_pack ?before) (bs_pageIndex ?before) g"
  have own: "bs_glyphLocators ?after (key g (getStyle g)) = Some ?own"
    by (simp add: step_locators)
  have same: "bs_glyphLocators (initPages_loop key scale ?mps ?after post) (key g (getStyle g))
      = bs_glyphLocators ?after (key g (getStyle g))"
    using assms by (rule loop_locators_other)
  have fin: "glyphLocators (initPages key (pre @ g # post) scale maxTextureSize :: ('k, 'tex) Atlas)
      = bs_glyphLocators (initPages_loop key scale ?mps ?after post)"
    by (simp add: initPages_def loop_append loop_Cons Let_def)
  show ?thesis
    using own same fin by (simp add: Atlas_draw_def Let_def)
qed

theorem locator_of_last_occurrence_witness:
  "specAtlasKey (sampleGlyph 1 1 Fill 0 20 20) (getStyle (sampleGlyph 1 1 Fill 0 20 20))
     \<notin> set (map (\<lambda>h. specAtlasKey h (getStyle h)) [sampleGlyph 2 1 Fill 0 20 20])
   \<and> glyphLocators
        (initPages specAtlasKey
           ([sampleGlyph 1 1 Fill 0 20 20] @ sampleGlyph 1 1 Fill 0 20 20
              # [sampleGlyph 2 1 Fill 0 20 20])
           1 2048 :: (_, unit) Atlas)
        (specAtlasKey (sampleGlyph 1 1 Fill 0 20 20) (getStyle (sampleGlyph 1 1 Fill 0 20 20)))
      = Some \<lparr>pageIndex = 0,
               location = \<lparr>rect_left = 26, rect_top = 3, rect_right = 46, rect_bottom = 23\<rparr>\<rparr>"
proof -
  let ?g1 = "sampleGlyph 1 1 Fill 0 20 20"
  let ?g2 = "sampleGlyph 2 1 Fill 0 20 20"
  let ?L = "\<lparr>pageIndex = 0,
             location = \<lparr>rect_left = 26, rect_top = 3, rect_right = 46, rect_bottom = 23\<rparr>\<rparr>"
  let ?before = "initPages_loop specAtlasKey 1 \<lfloor>f32 (int_to_float 2048 / 1)\<rfloor>
                   (initPages_start 1 :: (_, unit) BuildState) [?g1]"
  have h: "specAtlasKey ?g1 (getStyle ?g1) \<notin> set (map (\<lambda>h. specAtlasKey h (getStyle h)) [?g2])"
    by (simp add: specAtlasKey_def sampleGlyph_def)
  have own: "iterationLocator 1 \<lfloor>f32 (int_to_float 2048 / 1)\<rfloor>
               (bs_pack ?before) (bs_pageIndex ?before) ?g1 = ?L"
    by code_simp
  from locator_of_last_occurrence
         [where key = specAtlasKey and g = ?g1 and post = "[?g2]" and pre = "[?g1]"
            and scale = 1 and maxTextureSize = 2048 and ?'tex = unit] h own
  have "glyphLocators (initPages specAtlasKey ([?g1] @ ?g1 # [?g2]) 1 2048 :: (_, unit) Atlas)
          (specAtlasKey ?g1 (getStyle ?g1)) = Some ?L"
    by (simp add: Let_def)
  with h show ?thesis by simp
qed

text \<open>
  C9. Style grouping: on every page the glyphs of one style key are accumulated into
  exactly one run, the number of runs of a page is the number of distinct style keys
  among its glyphs, and a run never crosses a page boundary.

  The pointer to the run of the current glyph is taken before the glyph is packed and is
  still used after an overflow has moved the runs into the closed page. With a 20 by 20
  glyph of typeface 1 followed by two 10 by 10 glyphs of typeface 2 (scale 1, maximal
  texture size 30) the second glyph overflows. Its locator and that of the third glyph
  name page 1, but page 0 ends with two runs, the second holding glyph 2, although only
  glyph 1 is located there; on page 1 the run of typeface 2 holds glyph 3 alone.
\<close>

theorem run_crosses_page_boundary:
  "map_option
     (\<lambda>atlas. (map pageSummary (pages atlas),
                map_option pageIndex
                  (glyphLocators atlas (specAtlasKey (sampleGlyph 1 1 Fill 0 20 20) Fill)),
                map_option pageIndex
                  (glyphLocators atlas (specAtlasKey (sampleGlyph 2 2 Fill 0 10 10) Fill)),
                map_option pageIndex
                  (glyphLocators atlas (specAtlasKey (sampleGlyph 3 2 Fill 0 10 10) Fill))))
     (Atlas_Make specAtlasKey (\<lambda>page s a. Some ()) 1
        [sampleGlyph 1 1 Fill 0 20 20, sampleGlyph 2 2 Fill 0 10 10,
         sampleGlyph 3 2 Fill 0 10 10] 30 True)
   = Some ([(26, 26, [[1], [2]]), (29, 16, [[3]])], Some 0, Some 1, Some 1)
   \<and> ComputeStyleKey (sampleGlyph 2 2 Fill 0 10 10)
       = ComputeStyleKey (sampleGlyph 3 2 Fill 0 10 10)"
  by code_simp

section \<open>Claims about shapes\<close>

text \<open>
  C10. \<open>Shape::MakeFrom\<close> returns null exactly when the path is empty and a shape
  otherwise; when the gradient shader cannot be built, the shape uses a colour shader
  of the last gradient colour.

  As stated this fails for a gradient without colours whose shader cannot be built:
  the fallback evaluates \<open>gradient.colors.back()\<close> on an empty vector, which yields
  neither null nor a shape.
\<close>

theorem gradient_without_colors_fault:
  "\<not> (\<lambda>p. p = []) [1::nat]
   \<and> gradientShader failingShaders (sampleGradient []) = None
   \<and> (Shape_MakeFrom_gradient (\<lambda>p. p = []) failingShaders [1::nat] (sampleGradient [])
         :: fault + (nat list, unit, nat) Shape option)
       = Inl BackOfEmptyVector"
  by (simp add: Shape_MakeFrom_gradient_def gradientShader_def failingShaders_def
        sampleGradient_def)

text \<open>
  C10, amended. Both overloads return null exactly when the path is empty. For a
  non-empty path the colour overload returns a shape, and the gradient overload returns
  a shape unless the gradient shader cannot be built and the gradient has no colour
  at all; the shader of the shape is the gradient shader if that could be built and the
  colour shader of the last colour otherwise. In the excluded case the fallback reads
  the last element of an empty vector.
\<close>

theorem Shape_MakeFrom_null_iff:
  "((Shape_MakeFrom_color isEmpty path color :: ('path, 'color4f, 'shader) Shape option) = None
      \<longleftrightarrow> isEmpty path)
   \<and> (\<not> isEmpty path \<longrightarrow>
        (Shape_MakeFrom_color isEmpty path color :: ('path, 'color4f, 'shader) Shape option)
          = Some \<lparr>shapePath = path,
                  shapePaint = \<lparr>paintColor = Some color, paintShader = None\<rparr>\<rparr>)
   \<and> ((Shape_MakeFrom_gradient isEmpty api path gradient
          :: fault + ('path, 'color4f, 'shader) Shape option) = Inr None \<longleftrightarrow> isEmpty path)
   \<and> (\<not> isEmpty path \<longrightarrow>
        \<not> (gradientShader api gradient = None \<and> colors gradient = []) \<longrightarrow>
        (Shape_MakeFrom_gradient isEmpty api path gradient
           :: fault + ('path, 'color4f, 'shader) Shape option)
          = Inr (Some \<lparr>shapePath = path,
                       shapePaint =
                         \<lparr>paintColor = None,
                          paintShader =
                            (case gradientShader api gradient of
                               Some shader \<Rightarrow> Some shader
                             | None \<Rightarrow> MakeColorShader api (last (colors gradient)))\<rparr>\<rparr>))
   \<and> (\<not> isEmpty path \<longrightarrow>
        gradientShader api gradient = None \<and> colors gradient = [] \<longrightarrow>
        (Shape_MakeFrom_gradient isEmpty api path gradient
           :: fault + ('path, 'color4f, 'shader) Shape option) = Inl BackOfEmptyVector)"
  by (auto simp: Shape_MakeFrom_color_def Shape_MakeFrom_gradient_def split: option.splits)

theorem Shape_MakeFrom_null_iff_witness:
  "\<not> (\<lambda>p. p = []) [1::nat]
   \<and> \<not> (gradientShader failingShaders (sampleGradient [4, 5, 6]) = None
          \<and> colors (sampleGradient [4, 5, 6]) = [])
   \<and> (Shape_MakeFrom_gradient (\<lambda>p. p = []) failingShaders [1::nat] (sampleGradient [4, 5, 6])
         :: fault + (nat list, unit, nat) Shape option)
       = Inr (Some \<lparr>shapePath = [1],
                    shapePaint = \<lparr>paintColor = None, paintShader = Some 6\<rparr>\<rparr>)
   \<and> \<not> (gradientShader workingShaders (sampleGradient []) = None
          \<and> colors (sampleGradient []) = [])
   \<and> (Shape_MakeFrom_gradient (\<lambda>p. p = []) workingShaders [1::nat] (sampleGradient [])
         :: fault + (nat list, unit, nat) Shape option)
       = Inr (Some \<lparr>shapePath = [1],
                    shapePaint = \<lparr>paintColor = None, paintShader = Some 100\<rparr>\<rparr>)
   \<and> (Shape_MakeFrom_color (\<lambda>p. p = []) [1::nat] ()
         :: (nat list, unit, nat) Shape option)
       = Some \<lparr>shapePath = [1],
               shapePaint = \<lparr>paintColor = Some (), paintShader = None\<rparr>\<rparr>"
proof -
  have p: "\<not> (\<lambda>p. p = []) [1::nat]" by simp
  have c: "colors (sampleGradient [4, 5, 6]) \<noteq> []" by (simp add: sampleGradient_def)
  have g: "gradientShader failingShaders (sampleGradient [4, 5, 6]) = None"
    by (simp add: gradientShader_def failingShaders_def sampleGradient_def)
  have k: "MakeColorShader failingShaders (last (colors (sampleGradient [4, 5, 6]))) = Some 6"
    by (simp add: failingShaders_def sampleGradient_def)
  have w: "gradientShader workingShaders (sampleGradient []) = Some 100"
    by (simp add: gradientShader_def workingShaders_def sampleGradient_def)
  from Shape_MakeFrom_null_iff
         [where isEmpty = "\<lambda>p. p = []" and path = "[1::nat]" and color = "()"
            and api = failingShaders and gradient = "sampleGradient [4, 5, 6]"] p c g k
  have a: "(Shape_MakeFrom_gradient (\<lambda>p. p = []) failingShaders [1::nat]
              (sampleGradient [4, 5, 6]) :: fault + (nat list, unit, nat) Shape option)
       = Inr (Some \<lparr>shapePath = [1],
                    shapePaint = \<lparr>paintColor = None, paintShader = Some 6\<rparr>\<rparr>)"
    by simp
  from Shape_MakeFrom_null_iff
         [where isEmpty = "\<lambda>p. p = []" and path = "[1::nat]" and color = "()"
            and api = workingShaders and gradient = "sampleGradient []"] p w
  have b: "(Shape_MakeFrom_gradient (\<lambda>p. p = []) workingShaders [1::nat]
              (sampleGradient []) :: fault + (nat list, unit, nat) Shape option)
       = Inr (Some \<lparr>shapePath = [1],
                    shapePaint = \<lparr>paintColor = None, paintShader = Some 100\<rparr>\<rparr>)"
    and d: "(Shape_MakeFrom_color (\<lambda>p. p = []) [1::nat] ()
              :: (nat list, unit, nat) Shape option)
       = Some \<lparr>shapePath = [1],
               shapePaint = \<lparr>paintColor = Some (), paintShader = None\<rparr>\<rparr>"
    by simp_all
  from p c g w a b d show ?thesis by simp
qed

end
